theory Spec2Isabelle
  imports Main "HOL-Library.Sublist"
begin

section \<open>Embedding of \<open>src/sync.py\<close>\<close>

text \<open>
  The script replicates the timing metadata of the commits of one repository into another
  by running \<open>git\<close> as a child process. Everything the script touches outside its own
  variables is one explicit \<open>world\<close> value that each operation takes and returns: the file
  system, the working directory, the process environment, the two output streams. An
  exception is the left injection of a sum; a function that can raise returns the world it
  had reached together with the error, because the effects made before a raise stay.
\<close>

subsection \<open>Exceptions\<close>

datatype error =
    FileNotFoundError
  | FileExistsError
  | NotADirectoryError
  | IsADirectoryError
  | CalledProcessError
  | NoSectionError
  | NoOptionError
  | ParsingError
  | TypeError
  | ValueError
  | AttributeError
  | NotImplementedError

subsection \<open>Strings\<close>

text \<open>
  \<open>str.split(sep)\<close> with a one-character separator: the result always has at least
  one field, and \<open>"".split(sep) = [""]\<close>.
\<close>

fun py_split :: "char \<Rightarrow> string \<Rightarrow> string list" where
  "py_split sep [] = [[]]"
| "py_split sep (c # cs) =
     (if c = sep then [] # py_split sep cs
      else (case py_split sep cs of
              [] \<Rightarrow> [[c]]
            | x # xs \<Rightarrow> (c # x) # xs))"

text \<open>
  \<open>str.strip()\<close> removes leading and trailing whitespace. The ASCII characters for which
  \<open>str.isspace\<close> holds are 9 to 13 and 28 to 32.
\<close>

definition is_space :: "char \<Rightarrow> bool" where
  "is_space c =
     (let n = (of_char c :: nat) in (9 \<le> n \<and> n \<le> 13) \<or> (28 \<le> n \<and> n \<le> 32))"

definition py_strip :: "string \<Rightarrow> string" where
  "py_strip s = rev (dropWhile is_space (rev (dropWhile is_space s)))"

text \<open>\<open>sep.join(fields)\<close>.\<close>

fun py_join :: "string \<Rightarrow> string list \<Rightarrow> string" where
  "py_join sep [] = []"
| "py_join sep [x] = x"
| "py_join sep (x # y # ys) = x @ sep @ py_join sep (y # ys)"

text \<open>Whether \<open>pat\<close> occurs in \<open>s\<close> as a contiguous run of characters.\<close>

fun contains :: "string \<Rightarrow> string \<Rightarrow> bool" where
  "contains pat [] = (pat = [])"
| "contains pat (c # cs) = (prefix pat (c # cs) \<or> contains pat cs)"

definition is_alnum :: "char \<Rightarrow> bool" where
  "is_alnum c =
     (let n = (of_char c :: nat)
      in (48 \<le> n \<and> n \<le> 57) \<or> (65 \<le> n \<and> n \<le> 90) \<or> (97 \<le> n \<and> n \<le> 122))"

text \<open>A string of ASCII letters and digits only: it has no character that is special to
  a regular expression or to the formatting of a subject line.\<close>

definition plain :: "string \<Rightarrow> bool" where
  "plain s = list_all is_alnum s"



subsection \<open>Paths and the file system\<close>

text \<open>
  A \<open>pathlib.Path\<close> is a list of components and whether it is anchored at the root.
  The model takes components to be ordinary names: \<open>..\<close> and symbolic links are not
  resolved. A location of the file system is the list of components from the root.
\<close>

record py_path =
  is_absolute :: bool
  parts :: "string list"

definition joinpath :: "py_path \<Rightarrow> string \<Rightarrow> py_path" where
  "joinpath p name = p\<lparr>parts := parts p @ [name]\<rparr>"

text \<open>
  One entry of the destination history. \<open>tree\<close> is the snapshot of the staged files the
  commit records: the text of each file, by its path below the work tree.
\<close>

record commit =
  message :: string
  author_date :: string
  committer_date :: string
  tree :: "string list \<rightharpoonup> string"

text \<open>The history store kept in a \<open>.git\<close> directory: the commits, newest first (the order
  in which \<open>git log\<close> lists them), and the staging area.\<close>

record store =
  history :: "commit list"
  index :: "string list \<rightharpoonup> string"

datatype node = Dir | File string | Store store

text \<open>
  The parsed form of an INI file as \<open>configparser.ConfigParser\<close> holds it: the options of
  the \<open>DEFAULT\<close> section and the options of each named section.
\<close>

record ini =
  ini_defaults :: "string \<rightharpoonup> string"
  ini_sections :: "string \<rightharpoonup> (string \<rightharpoonup> string)"

text \<open>
  The world. \<open>stdout\<close> and \<open>stderr\<close> hold the lines the script itself prints; what the
  child processes write to the streams they inherit is not recorded. Besides the state
  proper the world holds what the script's environment decides and the script only observes:
  \<^item> \<open>source_log\<close>: the standard output of
    \<open>git -C dir log --format=format:%aD|%cD|%H --author identity\<close> for a source directory
    and an identity, \<open>None\<close> when git exits non-zero. The source history is an input of
    the model: it is read, never written, and it is the same at every read.
  \<^item> \<open>bre_match\<close>: git's regular-expression engine on patterns that are not \<open>plain\<close>;
  \<^item> \<open>pretty_f\<close>: git's \<open>%f\<close> (the subject line made fit for a file name) on messages
    that are not \<open>plain\<close>;
  \<^item> \<open>commit_refused\<close>: whether \<open>git commit\<close> exits non-zero for a would-be entry on
    top of a history, given whether \<open>--allow-empty\<close> was passed (no committer identity
    configured, a date it cannot parse, an empty message, nothing to commit, a failing
    hook, a full disk);
  \<^item> \<open>wall_clock\<close>: the time git reads from the system clock when it writes the entry
    on top of a history of the given length;
  \<^item> \<open>ini_parser\<close>: \<open>configparser\<close>'s reading of a file's text.
\<close>

record world =
  fs :: "string list \<rightharpoonup> node"
  cwd :: "string list"
  home :: "string list"
  environ :: "string \<rightharpoonup> string"
  stdout :: "string list"
  stderr :: "string list"
  source_log :: "string list \<Rightarrow> string \<Rightarrow> string option"
  bre_match :: "string \<Rightarrow> string \<Rightarrow> bool"
  pretty_f :: "string \<Rightarrow> string"
  commit_refused :: "bool \<Rightarrow> commit list \<Rightarrow> commit \<Rightarrow> bool"
  wall_clock :: "nat \<Rightarrow> string"
  ini_parser :: "string \<Rightarrow> error + ini"

text \<open>\<open>Path.absolute()\<close>, which is also how the operating system reads a relative path:
  against the working directory of the process.\<close>

definition absolute :: "world \<Rightarrow> py_path \<Rightarrow> string list" where
  "absolute w p = (if is_absolute p then parts p else cwd w @ parts p)"

text \<open>The node at a location; the root is always a directory.\<close>

definition node_at :: "world \<Rightarrow> string list \<Rightarrow> node option" where
  "node_at w loc = (if loc = [] then Some Dir else fs w loc)"

definition is_dir :: "world \<Rightarrow> py_path \<Rightarrow> bool" where
  "is_dir w p =
     (case node_at w (absolute w p) of
        Some Dir \<Rightarrow> True
      | Some (Store s) \<Rightarrow> True
      | Some (File t) \<Rightarrow> False
      | None \<Rightarrow> False)"

definition is_file :: "world \<Rightarrow> py_path \<Rightarrow> bool" where
  "is_file w p =
     (case node_at w (absolute w p) of
        Some (File t) \<Rightarrow> True
      | Some Dir \<Rightarrow> False
      | Some (Store s) \<Rightarrow> False
      | None \<Rightarrow> False)"

text \<open>
  \<open>Path.mkdir()\<close> with its defaults \<open>parents=False, exist_ok=False\<close>: the path must not
  exist and its parent must be a directory.
\<close>

definition mkdir :: "world \<Rightarrow> py_path \<Rightarrow> error + world" where
  "mkdir w p =
     (let loc = absolute w p
      in case node_at w loc of
           Some n \<Rightarrow> Inl FileExistsError
         | None \<Rightarrow>
             (case node_at w (butlast loc) of
                None \<Rightarrow> Inl FileNotFoundError
              | Some (File t) \<Rightarrow> Inl NotADirectoryError
              | Some Dir \<Rightarrow> Inr (w\<lparr>fs := (fs w)(loc \<mapsto> Dir)\<rparr>)
              | Some (Store s) \<Rightarrow> Inr (w\<lparr>fs := (fs w)(loc \<mapsto> Dir)\<rparr>)))"

text \<open>\<open>shutil.rmtree(p)\<close> on a directory: the directory and everything below it go.\<close>

definition rmtree :: "world \<Rightarrow> py_path \<Rightarrow> world" where
  "rmtree w p =
     (let loc = absolute w p
      in w\<lparr>fs := (\<lambda>q. if prefix loc q then None else fs w q)\<rparr>)"

text \<open>\<open>Path.write_text(text)\<close>: opens the file for writing, which creates or truncates
  it; the directory that is to hold it must exist.\<close>

definition write_text :: "world \<Rightarrow> py_path \<Rightarrow> string \<Rightarrow> error + world" where
  "write_text w p text =
     (let loc = absolute w p
      in case node_at w loc of
           Some Dir \<Rightarrow> Inl IsADirectoryError
         | Some (Store s) \<Rightarrow> Inl IsADirectoryError
         | Some (File t) \<Rightarrow> Inr (w\<lparr>fs := (fs w)(loc \<mapsto> File text)\<rparr>)
         | None \<Rightarrow>
             (case node_at w (butlast loc) of
                None \<Rightarrow> Inl FileNotFoundError
              | Some (File t) \<Rightarrow> Inl NotADirectoryError
              | Some Dir \<Rightarrow> Inr (w\<lparr>fs := (fs w)(loc \<mapsto> File text)\<rparr>)
              | Some (Store s) \<Rightarrow> Inr (w\<lparr>fs := (fs w)(loc \<mapsto> File text)\<rparr>)))"

definition chdir :: "world \<Rightarrow> py_path \<Rightarrow> error + world" where
  "chdir w p =
     (let loc = absolute w p
      in case node_at w loc of
           None \<Rightarrow> Inl FileNotFoundError
         | Some (File t) \<Rightarrow> Inl NotADirectoryError
         | Some Dir \<Rightarrow> Inr (w\<lparr>cwd := loc\<rparr>)
         | Some (Store s) \<Rightarrow> Inr (w\<lparr>cwd := loc\<rparr>))"

text \<open>\<open>os.path.expanduser\<close>: a leading \<open>~\<close> component becomes the home directory. (The
  form \<open>~user\<close> is not modelled.)\<close>

definition expanduser :: "world \<Rightarrow> py_path \<Rightarrow> py_path" where
  "expanduser w p =
     (case parts p of
        [] \<Rightarrow> p
      | x # xs \<Rightarrow>
          if is_absolute p then p
          else if x = ''~'' then \<lparr>is_absolute = True, parts = home w @ xs\<rparr>
          else p)"

subsection \<open>\<open>class cd\<close>\<close>

text \<open>
  \<^verbatim>\<open>
  def __init__(self, new_path, dry_run=False):
      self.new_path = os.path.expanduser(new_path)
  def __enter__(self):
      self.saved_path = os.getcwd()
      os.chdir(self.new_path)
  def __exit__(self, etype, value, traceback):
      os.chdir(self.saved_path)
  \<close>
  \<open>with cd(new_path): body\<close>. The working directory is put back whether the body returns
  or raises; an exception of the body goes on after that.
\<close>

definition with_cd ::
  "py_path \<Rightarrow> (world \<Rightarrow> world \<times> (error + 'a)) \<Rightarrow> world \<Rightarrow> world \<times> (error + 'a)" where
  "with_cd new_path body w =
     (let saved_path = \<lparr>is_absolute = True, parts = cwd w\<rparr>
      in case chdir w (expanduser w new_path) of
           Inl e \<Rightarrow> (w, Inl e)
         | Inr w1 \<Rightarrow>
             (case body w1 of
                (w2, r) \<Rightarrow>
                  (case chdir w2 saved_path of
                     Inl e \<Rightarrow> (w2, Inl e)
                   | Inr w3 \<Rightarrow> (w3, r))))"

subsection \<open>The child process: git\<close>

text \<open>
  The history store of a work tree is the node at \<open>dir/.git\<close>. (git would also look in
  the parent directories of \<open>dir\<close>; the model does not.)
\<close>

definition store_at :: "world \<Rightarrow> string list \<Rightarrow> store option" where
  "store_at w dir =
     (case fs w (dir @ [''.git'']) of
        Some (Store s) \<Rightarrow> Some s
      | Some Dir \<Rightarrow> None
      | Some (File t) \<Rightarrow> None
      | None \<Rightarrow> None)"

definition put_store :: "world \<Rightarrow> string list \<Rightarrow> store \<Rightarrow> world" where
  "put_store w dir s = w\<lparr>fs := (fs w)(dir @ [''.git''] \<mapsto> Store s)\<rparr>"

text \<open>
  \<open>git init\<close> in the working directory: an existing store is kept as it is, a missing one
  is created empty; a plain file in the way makes git fail.
\<close>

definition git_init :: "world \<Rightarrow> error + world" where
  "git_init w =
     (case fs w (cwd w @ [''.git'']) of
        Some (File t) \<Rightarrow> Inl CalledProcessError
      | Some (Store s) \<Rightarrow> Inr w
      | Some Dir \<Rightarrow> Inr (put_store w (cwd w) \<lparr>history = [], index = Map.empty\<rparr>)
      | None \<Rightarrow> Inr (put_store w (cwd w) \<lparr>history = [], index = Map.empty\<rparr>))"

text \<open>
  \<open>git add -A\<close> in the working directory \<open>root\<close>: the staging area becomes the files of the
  work tree, nothing of a \<open>.git\<close> directory among them. (Ignore rules and nested
  repositories are not modelled; git does not record empty directories.)
\<close>

definition worktree_files :: "world \<Rightarrow> string list \<Rightarrow> (string list \<rightharpoonup> string)" where
  "worktree_files w root =
     (\<lambda>rel. if rel = [] \<or> ''.git'' \<in> set rel then None
            else (case fs w (root @ rel) of
                    Some (File t) \<Rightarrow> Some t
                  | Some Dir \<Rightarrow> None
                  | Some (Store s) \<Rightarrow> None
                  | None \<Rightarrow> None))"

definition git_add_all :: "world \<Rightarrow> error + world" where
  "git_add_all w =
     (case store_at w (cwd w) of
        None \<Rightarrow> Inl CalledProcessError
      | Some s \<Rightarrow> Inr (put_store w (cwd w) (s\<lparr>index := worktree_files w (cwd w)\<rparr>)))"

text \<open>\<open>--grep=pat\<close>: a pattern of letters and digits matches a message exactly when it
  occurs in it; any other pattern is the regular-expression engine's business.\<close>

definition grep_match :: "world \<Rightarrow> string \<Rightarrow> string \<Rightarrow> bool" where
  "grep_match w pat msg = (if plain pat then contains pat msg else bre_match w pat msg)"

text \<open>\<open>%f\<close>: a message of letters and digits only is its own sanitized subject line.\<close>

definition format_f :: "world \<Rightarrow> string \<Rightarrow> string" where
  "format_f w msg = (if plain msg then msg else pretty_f w msg)"

text \<open>
  The standard output of \<open>git -C dir log --format=format:%f --grep=pat\<close>: one line per
  matching entry, newest first, separated (not terminated) by newlines. When \<open>dir\<close> is not
  a repository git prints nothing on standard output.
\<close>

definition git_log_grep :: "world \<Rightarrow> string list \<Rightarrow> string \<Rightarrow> string" where
  "git_log_grep w dir pat =
     (case store_at w dir of
        None \<Rightarrow> []
      | Some s \<Rightarrow>
          py_join ''\<newline>''
            (map (\<lambda>c. format_f w (message c))
               (filter (\<lambda>c. grep_match w pat (message c)) (history s))))"

text \<open>
  \<open>git -C dir commit --allow-empty -m msg\<close> under the environment \<open>env\<close>. git takes the
  author date from \<open>GIT_AUTHOR_DATE\<close> and the committer date from \<open>GIT_COMMITTER_DATE\<close>;
  a date whose variable is not set is read from the system clock. The entry records the
  staging area as it stands.
\<close>

definition new_commit :: "world \<Rightarrow> store \<Rightarrow> string \<Rightarrow> (string \<rightharpoonup> string) \<Rightarrow> commit" where
  "new_commit w s msg env =
     \<lparr>message = msg,
      author_date =
        (case env ''GIT_AUTHOR_DATE'' of
           Some d \<Rightarrow> d
         | None \<Rightarrow> wall_clock w (length (history s))),
      committer_date =
        (case env ''GIT_COMMITTER_DATE'' of
           Some d \<Rightarrow> d
         | None \<Rightarrow> wall_clock w (length (history s))),
      tree = index s\<rparr>"

definition git_commit ::
  "world \<Rightarrow> string list \<Rightarrow> string \<Rightarrow> (string \<rightharpoonup> string) \<Rightarrow> error + world" where
  "git_commit w dir msg env =
     (case store_at w dir of
        None \<Rightarrow> Inl CalledProcessError
      | Some s \<Rightarrow>
          (let c = new_commit w s msg env
           in if commit_refused w True (history s) c then Inl CalledProcessError
              else Inr (put_store w dir (s\<lparr>history := c # history s\<rparr>))))"

text \<open>
  \<open>git commit -am msg\<close> in the working directory, under the environment of the process:
  \<open>-a\<close> first brings the staged files up to date with the work tree.
\<close>

definition restage :: "world \<Rightarrow> string list \<Rightarrow> (string list \<rightharpoonup> string) \<Rightarrow> (string list \<rightharpoonup> string)" where
  "restage w root idx =
     (\<lambda>rel. case idx rel of
              None \<Rightarrow> None
            | Some old \<Rightarrow> worktree_files w root rel)"

definition git_commit_am :: "world \<Rightarrow> string \<Rightarrow> error + world" where
  "git_commit_am w msg =
     (case store_at w (cwd w) of
        None \<Rightarrow> Inl CalledProcessError
      | Some s \<Rightarrow>
          (let s1 = s\<lparr>index := restage w (cwd w) (index s)\<rparr>;
               c = new_commit w s1 msg (environ w)
           in if commit_refused w False (history s) c then Inl CalledProcessError
              else Inr (put_store w (cwd w) (s1\<lparr>history := c # history s\<rparr>))))"

subsection \<open>\<open>get_git_email\<close>\<close>

text \<open>
  \<open>config.read(path)\<close> passes over a file it cannot open and raises on one it cannot
  parse. \<open>config.get(section, option)\<close> raises \<open>NoSectionError\<close> when the section is
  neither in the file nor the default section, looks the option up in the section and then
  among the defaults, and raises \<open>NoOptionError\<close> when it is in neither. (Value
  interpolation is not modelled.)
\<close>

definition empty_ini :: ini where
  "empty_ini = \<lparr>ini_defaults = Map.empty, ini_sections = Map.empty\<rparr>"

definition config_read :: "world \<Rightarrow> py_path \<Rightarrow> error + ini" where
  "config_read w p =
     (case node_at w (absolute w p) of
        Some (File t) \<Rightarrow> ini_parser w t
      | Some Dir \<Rightarrow> Inr empty_ini
      | Some (Store s) \<Rightarrow> Inr empty_ini
      | None \<Rightarrow> Inr empty_ini)"

definition config_get :: "ini \<Rightarrow> string \<Rightarrow> string \<Rightarrow> error + string" where
  "config_get config section option =
     (case (case ini_sections config section of
              Some d \<Rightarrow> Inr d
            | None \<Rightarrow> if section = ''DEFAULT'' then Inr Map.empty else Inl NoSectionError) of
        Inl e \<Rightarrow> Inl e
      | Inr d \<Rightarrow>
          (case d option of
             Some v \<Rightarrow> Inr v
           | None \<Rightarrow>
               (case ini_defaults config option of
                  Some v \<Rightarrow> Inr v
                | None \<Rightarrow> Inl NoOptionError)))"

text \<open>
  \<^verbatim>\<open>
  if gitconfig_path is None:
      gitconfig_path = Path.home() / ".gitconfig"
  config = configparser.ConfigParser()
  config.read(gitconfig_path)
  try:
      return config.get("user", "email")
  except configparser.NoOptionError:
      pass
  try:
      return os.environ["GIT_AUTHOR_EMAIL"]
  except KeyError:
      return os.environ.get("EMAIL")
  \<close>
  Only \<open>NoOptionError\<close> is caught; every other exception of the lookup leaves the function.
\<close>

definition get_git_email :: "world \<Rightarrow> py_path option \<Rightarrow> error + string option" where
  "get_git_email w gitconfig_path =
     (let path = (case gitconfig_path of
                    None \<Rightarrow> \<lparr>is_absolute = True, parts = home w @ [''.gitconfig'']\<rparr>
                  | Some p \<Rightarrow> p)
      in case config_read w path of
           Inl e \<Rightarrow> Inl e
         | Inr config \<Rightarrow>
             (case config_get config ''user'' ''email'' of
                Inr v \<Rightarrow> Inr (Some v)
              | Inl e \<Rightarrow>
                  if e = NoOptionError
                  then (case environ w ''GIT_AUTHOR_EMAIL'' of
                          Some v \<Rightarrow> Inr (Some v)
                        | None \<Rightarrow> Inr (environ w ''EMAIL''))
                  else Inl e))"

subsection \<open>\<open>force_init_output\<close>\<close>

text \<open>
  \<^verbatim>\<open>
  if output_dir.is_dir():
      git_dir = output_dir / ".git"
      if git_dir.is_dir():
          shutil.rmtree(output_dir / ".git")
  else:
      output_dir.mkdir()
  with cd(output_dir):
      subprocess.run(["git", "init"], check=True)
      info_file = Path(output_dir) / "sync_repo.dat"
      info_file.write_text("")
      subprocess.run(["git", "add", "-A"], check=True)
      subprocess.run(["git", "commit", "-am", "Initial commit"], check=True)
  \<close>
  The body of the \<open>with\<close> runs in the new working directory, and it is there that the
  operating system reads \<open>Path(output_dir) / "sync_repo.dat"\<close>.
\<close>

definition init_body :: "py_path \<Rightarrow> world \<Rightarrow> world \<times> (error + unit)" where
  "init_body output_dir w =
     (case git_init w of
        Inl e \<Rightarrow> (w, Inl e)
      | Inr w1 \<Rightarrow>
          (let info_file = joinpath output_dir ''sync_repo.dat''
           in case write_text w1 info_file [] of
                Inl e \<Rightarrow> (w1, Inl e)
              | Inr w2 \<Rightarrow>
                  (case git_add_all w2 of
                     Inl e \<Rightarrow> (w2, Inl e)
                   | Inr w3 \<Rightarrow>
                       (case git_commit_am w3 ''Initial commit'' of
                          Inl e \<Rightarrow> (w3, Inl e)
                        | Inr w4 \<Rightarrow> (w4, Inr ())))))"

definition force_init_output :: "py_path \<Rightarrow> world \<Rightarrow> world \<times> (error + unit)" where
  "force_init_output output_dir w =
     (case (if is_dir w output_dir
            then (let git_dir = joinpath output_dir ''.git''
                  in if is_dir w git_dir then Inr (rmtree w (joinpath output_dir ''.git''))
                     else Inr w)
            else mkdir w output_dir) of
        Inl e \<Rightarrow> (w, Inl e)
      | Inr w1 \<Rightarrow> with_cd output_dir (init_body output_dir) w1)"

subsection \<open>\<open>validate_existing_output_repo\<close>\<close>



subsection \<open>\<open>commit_exists\<close>\<close>

text \<open>
  \<^verbatim>\<open>
  process = subprocess.run(["git", "-C", str(output_dir.absolute()), "log",
                            "--format=format:%f", f"--grep={sha}"], capture_output=True)
  return len(process.stdout.decode().strip())
  \<close>
  The function returns a length, which its caller reads as a truth value.
\<close>

definition commit_exists :: "world \<Rightarrow> py_path \<Rightarrow> string \<Rightarrow> nat" where
  "commit_exists w output_dir sha =
     length (py_strip (git_log_grep w (absolute w output_dir) sha))"

subsection \<open>\<open>recreate_commits\<close>\<close>

text \<open>\<open>a, b, c = fields\<close> raises \<open>ValueError\<close> unless there are exactly three fields.\<close>

definition unpack3 :: "string list \<Rightarrow> error + (string \<times> string \<times> string)" where
  "unpack3 xs =
     (case xs of
        [a, b, c] \<Rightarrow> Inr (a, b, c)
      | _ \<Rightarrow> Inl ValueError)"

definition skip_message :: "string \<Rightarrow> string" where
  "skip_message sha = ''Commit for '' @ sha @ '' already exists. Skipping...''"

text \<open>
  The environment of the child process that writes an entry:
  \<^verbatim>\<open>
  env = {**os.environ.copy(),
         "GIT_AUTHOR_DATE": author_timestamp,
         "GIT_COMITER_DATE": commit_timestamp}
  \<close>
\<close>

definition commit_env :: "world \<Rightarrow> string \<Rightarrow> string \<Rightarrow> (string \<rightharpoonup> string)" where
  "commit_env w author_timestamp commit_timestamp =
     (environ w)(''GIT_AUTHOR_DATE'' \<mapsto> author_timestamp,
                 ''GIT_COMITER_DATE'' \<mapsto> commit_timestamp)"

text \<open>
  The \<open>for\<close> loop over the lines of the log, with \<open>num_copied\<close> as accumulator. A line that
  does not unpack is passed over (\<open>except ValueError: continue\<close>); a hash the destination
  already has is reported on standard error and passed over; any other line is written,
  and a write that fails raises out of the loop (\<open>check=True\<close>).
\<close>

fun copy_loop :: "py_path \<Rightarrow> string list \<Rightarrow> nat \<Rightarrow> world \<Rightarrow> world \<times> (error + nat)" where
  "copy_loop output_dir [] num_copied w = (w, Inr num_copied)"
| "copy_loop output_dir (line # rest) num_copied w =
     (case unpack3 (py_split CHR ''|'' line) of
        Inl e \<Rightarrow> copy_loop output_dir rest num_copied w
      | Inr (author_timestamp, commit_timestamp, sha) \<Rightarrow>
          if 0 < commit_exists w output_dir sha
          then copy_loop output_dir rest num_copied
                 (w\<lparr>stderr := stderr w @ [skip_message sha]\<rparr>)
          else (case git_commit w (absolute w output_dir) sha
                       (commit_env w author_timestamp commit_timestamp) of
                  Inl e \<Rightarrow> (w, Inl e)
                | Inr w' \<Rightarrow> copy_loop output_dir rest (num_copied + 1) w'))"

text \<open>
  \<open>identity\<close> is \<open>None\<close> when the command line gave none and \<open>get_git_email\<close> found none;
  \<open>subprocess.run\<close> then raises \<open>TypeError\<close> on the argument list. The read of the source
  log has \<open>check=True\<close>.
\<close>

definition recreate_commits ::
  "string option \<Rightarrow> py_path \<Rightarrow> py_path \<Rightarrow> world \<Rightarrow> world \<times> (error + nat)" where
  "recreate_commits identity in_git_dir output_dir w =
     (case identity of
        None \<Rightarrow> (w, Inl TypeError)
      | Some ident \<Rightarrow>
          (case source_log w (absolute w in_git_dir) ident of
             None \<Rightarrow> (w, Inl CalledProcessError)
           | Some out \<Rightarrow> copy_loop output_dir (py_split CHR ''\<newline>'' out) 0 w))"

subsection \<open>The subcommands and the script\<close>

datatype subcommand = Github | Gitlab | Local

text \<open>The namespace that \<open>argparse\<close> returns. \<open>INPUT_REPO\<close> and \<open>identity\<close> are there
  for the \<open>local\<close> subcommand only.\<close>

record cli_args =
  func :: subcommand
  INPUT_REPO :: py_path
  DESTINATION_REPO :: py_path
  identity :: "string option"
  force :: bool
  quiet :: bool

definition sync_github :: "cli_args \<Rightarrow> world \<Rightarrow> world \<times> (error + unit)" where
  "sync_github args w = (w, Inl NotImplementedError)"

definition sync_gitlab :: "cli_args \<Rightarrow> world \<Rightarrow> world \<times> (error + unit)" where
  "sync_gitlab args w = (w, Inl NotImplementedError)"




subsection \<open>What a run leaves behind\<close>

text \<open>The entries of the destination history, newest first; none when the destination
  holds no history store.\<close>

definition entries :: "world \<Rightarrow> py_path \<Rightarrow> commit list" where
  "entries w output_dir =
     (case store_at w (absolute w output_dir) of
        None \<Rightarrow> []
      | Some s \<Rightarrow> history s)"

text \<open>The entries that a run from \<open>w\<close> to \<open>w'\<close> added on top of the history, and the lines
  it added to standard error.\<close>

definition written :: "world \<Rightarrow> world \<Rightarrow> py_path \<Rightarrow> commit list" where
  "written w w' output_dir =
     take (length (entries w' output_dir) - length (entries w output_dir)) (entries w' output_dir)"

definition reported :: "world \<Rightarrow> world \<Rightarrow> string list" where
  "reported w w' = drop (length (stderr w)) (stderr w')"

text \<open>Everything of the world that \<open>recreate_commits\<close> neither writes nor moves.\<close>

definition same_setting :: "world \<Rightarrow> world \<Rightarrow> bool" where
  "same_setting w w' =
     (cwd w' = cwd w \<and> home w' = home w \<and> environ w' = environ w \<and> stdout w' = stdout w \<and>
      source_log w' = source_log w \<and> bre_match w' = bre_match w \<and> pretty_f w' = pretty_f w \<and>
      commit_refused w' = commit_refused w \<and> wall_clock w' = wall_clock w \<and>
      ini_parser w' = ini_parser w)"



text \<open>The lines of the source log that \<open>recreate_commits\<close> loops over; none when the
  read of the log fails.\<close>

definition source_lines :: "world \<Rightarrow> py_path \<Rightarrow> string \<Rightarrow> string list" where
  "source_lines w in_git_dir ident =
     (case source_log w (absolute w in_git_dir) ident of
        None \<Rightarrow> []
      | Some out \<Rightarrow> py_split CHR ''\<newline>'' out)"

subsection \<open>A concrete world\<close>

text \<open>
  A destination \<open>/srv/out\<close> that \<open>force_init_output\<close> has set up and that holds one more
  file, and a source \<open>/srv/src\<close> whose log for \<open>a@x.com\<close> has two entries. The process
  runs in \<open>/srv\<close> with an empty environment; git refuses nothing.
\<close>

definition demo_hash1 :: string where
  "demo_hash1 = ''3b18e512dba79e4c8300dd08aeb37f8e728b8dad''"

definition demo_hash2 :: string where
  "demo_hash2 = ''9c1185a5c5e9fc54612808977ee8f548b2258d31''"

definition demo_line1 :: string where
  "demo_line1 = ''Tue, 2 Jan 2024 11:30:00 +0100|Tue, 2 Jan 2024 18:45:10 +0100|'' @ demo_hash1"

definition demo_line2 :: string where
  "demo_line2 = ''Mon, 1 Jan 2024 10:00:00 +0100|Mon, 1 Jan 2024 10:00:00 +0100|'' @ demo_hash2"

definition demo_log :: string where
  "demo_log = demo_line1 @ ''\<newline>'' @ demo_line2"

definition demo_now :: string where
  "demo_now = ''Wed, 4 Nov 2026 12:00:00 +0000''"

definition demo_src :: py_path where
  "demo_src = \<lparr>is_absolute = True, parts = [''srv'', ''src'']\<rparr>"

definition demo_out :: py_path where
  "demo_out = \<lparr>is_absolute = True, parts = [''srv'', ''out'']\<rparr>"

definition demo_initial :: commit where
  "demo_initial =
     \<lparr>message = ''Initial commit'',
      author_date = ''Tue, 3 Nov 2026 09:00:00 +0000'',
      committer_date = ''Tue, 3 Nov 2026 09:00:00 +0000'',
      tree = [[''sync_repo.dat''] \<mapsto> []]\<rparr>"

definition demo_world :: world where
  "demo_world =
     \<lparr>fs = [[''srv''] \<mapsto> Dir,
             [''srv'', ''out''] \<mapsto> Dir,
             [''srv'', ''out'', ''sync_repo.dat''] \<mapsto> File [],
             [''srv'', ''out'', ''notes.txt''] \<mapsto> File ''keep me'',
             [''srv'', ''out'', ''.git''] \<mapsto>
               Store \<lparr>history = [demo_initial], index = [[''sync_repo.dat''] \<mapsto> []]\<rparr>],
      cwd = [''srv''],
      home = [''home'', ''u''],
      environ = Map.empty,
      stdout = [],
      stderr = [],
      source_log = (\<lambda>dir ident. if dir = [''srv'', ''src''] \<and> ident = ''a@x.com''
                                then Some demo_log else None),
      bre_match = (\<lambda>pat msg. False),
      pretty_f = (\<lambda>msg. ''Initial-commit''),
      commit_refused = (\<lambda>allow_empty hs c. False),
      wall_clock = (\<lambda>n. demo_now),
      ini_parser = (\<lambda>text. Inr empty_ini)\<rparr>"

text \<open>The world after one run of \<open>recreate_commits\<close> from the source into the
  destination.\<close>

definition demo_after :: world where
  "demo_after = fst (recreate_commits (Some ''a@x.com'') demo_src demo_out demo_world)"

text \<open>Variations: a log that ends in a newline, so that its last line is empty; and a
  source with a third entry together with a git that refuses the second one. Then the
  world the refused run stops in, and the world after a second run.\<close>

definition demo_hash3 :: string where
  "demo_hash3 = ''e7a1c04b5f2d4c6f9d0b8a3e1f6c7d2b4a5e9f10''"

definition demo_line3 :: string where
  "demo_line3 = ''Sun, 31 Dec 2023 23:59:59 -0500|Mon, 1 Jan 2024 00:10:00 -0500|'' @ demo_hash3"

definition demo_trailing :: world where
  "demo_trailing =
     demo_world\<lparr>source_log := (\<lambda>dir ident. Some (demo_log @ ''\<newline>''))\<rparr>"

definition demo_refusing :: world where
  "demo_refusing =
     demo_world\<lparr>source_log :=
                  (\<lambda>dir ident. Some (demo_line1 @ ''\<newline>'' @ demo_line2 @ ''\<newline>'' @ demo_line3)),
                commit_refused := (\<lambda>allow_empty hs c. message c = demo_hash2)\<rparr>"

definition demo_partial :: world where
  "demo_partial = fst (copy_loop demo_out [demo_line1] 0 demo_refusing)"



text \<open>
  Worlds for \<open>get_git_email\<close>, all with both environment variables set: one with no
  \<open>~/.gitconfig\<close>, one whose \<open>~/.gitconfig\<close> has a \<open>[core]\<close> section only, one whose
  \<open>[user]\<close> section has a name and no email.
\<close>

definition demo_env :: "string \<rightharpoonup> string" where
  "demo_env = [''GIT_AUTHOR_EMAIL'' \<mapsto> ''a@x.com'', ''EMAIL'' \<mapsto> ''b@x.com'']"

definition demo_no_config :: world where
  "demo_no_config = demo_world\<lparr>environ := demo_env\<rparr>"

definition demo_core_config :: world where
  "demo_core_config =
     demo_world
       \<lparr>fs := (fs demo_world)([''home'', ''u'', ''.gitconfig''] \<mapsto> File ''[core]\<newline>editor = vim\<newline>''),
        environ := demo_env,
        ini_parser := (\<lambda>text. Inr \<lparr>ini_defaults = Map.empty,
                                    ini_sections = [''core'' \<mapsto> [''editor'' \<mapsto> ''vim'']]\<rparr>)\<rparr>"

definition demo_name_config :: world where
  "demo_name_config =
     demo_world
       \<lparr>fs := (fs demo_world)([''home'', ''u'', ''.gitconfig''] \<mapsto> File ''[user]\<newline>name = A\<newline>''),
        environ := demo_env,
        ini_parser := (\<lambda>text. Inr \<lparr>ini_defaults = Map.empty,
                                    ini_sections = [''user'' \<mapsto> [''name'' \<mapsto> ''A'']]\<rparr>)\<rparr>"

text \<open>Destinations for \<open>force_init_output\<close>: \<open>/srv/new/out\<close>, whose parent does not exist;
  \<open>/srv/fresh\<close>, whose parent does; and \<open>out\<close>, relative to the working directory \<open>/srv\<close>.\<close>

definition demo_deep :: py_path where
  "demo_deep = \<lparr>is_absolute = True, parts = [''srv'', ''new'', ''out'']\<rparr>"

definition demo_fresh :: py_path where
  "demo_fresh = \<lparr>is_absolute = True, parts = [''srv'', ''fresh'']\<rparr>"

definition demo_out_relative :: py_path where
  "demo_out_relative = \<lparr>is_absolute = False, parts = [''out'']\<rparr>"

section \<open>Properties\<close>

subsection \<open>Strings and the tool\<close>










lemma unpack3_Inl_iff: "(\<exists>e. unpack3 xs = Inl e) \<longleftrightarrow> length xs \<noteq> 3"
  by (auto simp: unpack3_def split: list.splits)




lemma absolute_cong: "cwd w' = cwd w \<Longrightarrow> absolute w' p = absolute w p"
  by (simp add: absolute_def)



subsection \<open>One turn of the loop\<close>

lemma skip_step:
  "same_setting w (w\<lparr>stderr := stderr w @ d\<rparr>)"
  "entries (w\<lparr>stderr := stderr w @ d\<rparr>) out = entries w out"
  "fs (w\<lparr>stderr := stderr w @ d\<rparr>) = fs w"
  by (simp_all add: same_setting_def entries_def store_at_def absolute_def)

lemma git_commit_Inr_store:
  "git_commit w dir msg env = Inr w' \<Longrightarrow>
     \<exists>s. store_at w dir = Some s \<and>
         w' = put_store w dir (s\<lparr>history := new_commit w s msg env # history s\<rparr>)"
  by (auto simp: git_commit_def Let_def split: option.splits if_splits)

lemma put_store_setting: "same_setting w (put_store w dir s)"
  by (simp add: same_setting_def put_store_def)

lemma put_store_stderr: "stderr (put_store w dir s) = stderr w"
  by (simp add: put_store_def)

lemma store_at_put_store: "store_at (put_store w dir s) dir = Some s"
  by (simp add: store_at_def put_store_def)

lemma absolute_put_store: "absolute (put_store w dir s) p = absolute w p"
  by (simp add: absolute_def put_store_def)

lemma git_commit_Inr:
  assumes "git_commit w (absolute w out) msg env = Inr w'"
  shows "same_setting w w'"
    and "stderr w' = stderr w"
    and "entries w' out = new_commit w (the (store_at w (absolute w out))) msg env # entries w out"
proof -
  from git_commit_Inr_store[OF assms] obtain s where
    s: "store_at w (absolute w out) = Some s" and
    w': "w' = put_store w (absolute w out) (s\<lparr>history := new_commit w s msg env # history s\<rparr>)"
    by blast
  show "same_setting w w'" by (simp add: w' put_store_setting)
  show "stderr w' = stderr w" by (simp add: w' put_store_stderr)
  show "entries w' out = new_commit w (the (store_at w (absolute w out))) msg env # entries w out"
    by (simp add: w' s entries_def absolute_put_store store_at_put_store)
qed

lemma git_commit_Inl: "git_commit w d msg env = Inl e \<Longrightarrow> e = CalledProcessError"
  by (auto simp: git_commit_def Let_def split: option.splits if_splits)


lemma new_commit_fields:
  "message (new_commit w s sha (commit_env w a d)) = sha"
  "author_date (new_commit w s sha (commit_env w a d)) = a"
  "committer_date (new_commit w s sha (commit_env w a d)) =
     (case environ w ''GIT_COMMITTER_DATE'' of
        Some x \<Rightarrow> x
      | None \<Rightarrow> wall_clock w (length (history s)))"
  "tree (new_commit w s sha (commit_env w a d)) = index s"
  by (simp_all add: new_commit_def commit_env_def)


lemma written_eq: "entries w' out = new @ entries w out \<Longrightarrow> written w w' out = new"
  by (simp add: written_def)

lemma reported_eq: "stderr w' = stderr w @ diag \<Longrightarrow> reported w w' = diag"
  by (simp add: reported_def)

lemma copy_loop_Cons_cases [consumes 1, case_names malformed skipped failed wrote]:
  assumes "copy_loop out (l # rest) n w = (w', r)"
  obtains
    "length (py_split CHR ''|'' l) \<noteq> 3" and "copy_loop out rest n w = (w', r)"
  | a d sha where "unpack3 (py_split CHR ''|'' l) = Inr (a, d, sha)"
      and "0 < commit_exists w out sha"
      and "copy_loop out rest n (w\<lparr>stderr := stderr w @ [skip_message sha]\<rparr>) = (w', r)"
  | a d sha where "unpack3 (py_split CHR ''|'' l) = Inr (a, d, sha)"
      and "commit_exists w out sha = 0"
      and "git_commit w (absolute w out) sha (commit_env w a d) = Inl CalledProcessError"
      and "w' = w" and "r = Inl CalledProcessError"
  | a d sha w1 where "unpack3 (py_split CHR ''|'' l) = Inr (a, d, sha)"
      and "commit_exists w out sha = 0"
      and "git_commit w (absolute w out) sha (commit_env w a d) = Inr w1"
      and "copy_loop out rest (n + 1) w1 = (w', r)"
proof (cases "unpack3 (py_split CHR ''|'' l)")
  case (Inl e)
  then have len: "length (py_split CHR ''|'' l) \<noteq> 3"
    using unpack3_Inl_iff by blast
  from Inl assms have "copy_loop out rest n w = (w', r)" by simp
  with len show ?thesis by (rule that(1))
next
  case (Inr t)
  obtain a d sha where t: "t = (a, d, sha)" by (cases t)
  with Inr have u: "unpack3 (py_split CHR ''|'' l) = Inr (a, d, sha)" by simp
  show ?thesis
  proof (cases "0 < commit_exists w out sha")
    case True
    with u assms
    have "copy_loop out rest n (w\<lparr>stderr := stderr w @ [skip_message sha]\<rparr>) = (w', r)"
      by simp
    with u True show ?thesis by (rule that(2))
  next
    case False
    then have z: "commit_exists w out sha = 0" by simp
    show ?thesis
    proof (cases "git_commit w (absolute w out) sha (commit_env w a d)")
      case (Inl e)
      then have e: "e = CalledProcessError" by (rule git_commit_Inl)
      from Inl u z assms have "w' = w" and "r = Inl e" by simp_all
      with Inl e u z show ?thesis using that(3) by blast
    next
      case (Inr w1)
      with u z assms have "copy_loop out rest (n + 1) w1 = (w', r)" by simp
      with u z Inr show ?thesis using that(4) by blast
    qed
  qed
qed



lemma copy_loop_grows:
  "copy_loop out ls n w = (w', r) \<Longrightarrow>
     entries w' out = written w w' out @ entries w out \<and>
     stderr w' = stderr w @ reported w w'"
proof (induction ls arbitrary: n w)
  case Nil
  then show ?case by (auto simp: written_def reported_def)
next
  case (Cons l rest)
  from Cons.prems show ?case
  proof (cases rule: copy_loop_Cons_cases)
    case malformed
    then show ?thesis using Cons.IH by blast
  next
    case (skipped a d sha)
    let ?w1 = "w\<lparr>stderr := stderr w @ [skip_message sha]\<rparr>"
    from Cons.IH[OF skipped(3)]
    have e: "entries w' out = written ?w1 w' out @ entries w out"
      and s: "stderr w' = stderr w @ skip_message sha # reported ?w1 w'"
      by (simp_all add: skip_step)
    from written_eq[OF e] reported_eq[OF s] e s show ?thesis by simp
  next
    case (failed a d sha)
    then show ?thesis by (simp add: written_def reported_def)
  next
    case (wrote a d sha w1)
    from Cons.IH[OF wrote(4)]
    have "entries w' out = written w1 w' out @ entries w1 out"
      and "stderr w' = stderr w1 @ reported w1 w'" by simp_all
    with git_commit_Inr(2,3)[OF wrote(3)]
    have e: "entries w' out = (written w1 w' out @
               [new_commit w (the (store_at w (absolute w out))) sha (commit_env w a d)])
               @ entries w out"
      and s: "stderr w' = stderr w @ reported w1 w'" by simp_all
    from written_eq[OF e] reported_eq[OF s] e s show ?thesis by simp
  qed
qed




lemma copy_loop_Cons_effect [consumes 1, case_names malformed skipped failed wrote]:
  assumes "copy_loop out (l # rest) n w = (w', r)"
  obtains
    "length (py_split CHR ''|'' l) \<noteq> 3" and "copy_loop out rest n w = (w', r)"
  | a d sha w1 where "unpack3 (py_split CHR ''|'' l) = Inr (a, d, sha)"
      and "0 < commit_exists w out sha"
      and "w1 = w\<lparr>stderr := stderr w @ [skip_message sha]\<rparr>"
      and "copy_loop out rest n w1 = (w', r)"
      and "same_setting w w1" and "entries w1 out = entries w out"
      and "written w w' out = written w1 w' out"
      and "reported w w' = skip_message sha # reported w1 w'"
  | a d sha where "unpack3 (py_split CHR ''|'' l) = Inr (a, d, sha)"
      and "commit_exists w out sha = 0"
      and "git_commit w (absolute w out) sha (commit_env w a d) = Inl CalledProcessError"
      and "w' = w" and "r = Inl CalledProcessError"
      and "written w w' out = []" and "reported w w' = []"
  | a d sha w1 c where "unpack3 (py_split CHR ''|'' l) = Inr (a, d, sha)"
      and "commit_exists w out sha = 0"
      and "git_commit w (absolute w out) sha (commit_env w a d) = Inr w1"
      and "copy_loop out rest (n + 1) w1 = (w', r)"
      and "same_setting w w1" and "entries w1 out = c # entries w out"
      and "c = new_commit w (the (store_at w (absolute w out))) sha (commit_env w a d)"
      and "written w w' out = written w1 w' out @ [c]"
      and "reported w w' = reported w1 w'"
using assms
proof (cases rule: copy_loop_Cons_cases)
  case malformed
  then show ?thesis by (rule that(1))
next
  case (skipped a d sha)
  let ?w1 = "w\<lparr>stderr := stderr w @ [skip_message sha]\<rparr>"
  from copy_loop_grows[OF skipped(3)]
  have e: "entries w' out = written ?w1 w' out @ entries w out"
    and s: "stderr w' = stderr w @ skip_message sha # reported ?w1 w'"
    by (simp_all add: skip_step)
  show ?thesis
    using that(2)[OF skipped(1,2) refl skipped(3) skip_step(1,2) written_eq[OF e] reported_eq[OF s]] .
next
  case (failed a d sha)
  then have "written w w' out = []" and "reported w w' = []"
    by (simp_all add: written_def reported_def)
  with failed show ?thesis using that(3) by blast
next
  case (wrote a d sha w1)
  let ?c = "new_commit w (the (store_at w (absolute w out))) sha (commit_env w a d)"
  from copy_loop_grows[OF wrote(4)]
  have "entries w' out = written w1 w' out @ entries w1 out"
    and "stderr w' = stderr w1 @ reported w1 w'" by simp_all
  with git_commit_Inr(2,3)[OF wrote(3)]
  have e: "entries w' out = (written w1 w' out @ [?c]) @ entries w out"
    and s: "stderr w' = stderr w @ reported w1 w'" by simp_all
  show ?thesis
    using that(4)[OF wrote(1,2,3,4) git_commit_Inr(1)[OF wrote(3)] git_commit_Inr(3)[OF wrote(3)]
        refl written_eq[OF e] reported_eq[OF s]] .
qed


lemma unpack3_Inr_length: "unpack3 xs = Inr t \<Longrightarrow> length xs = 3"
  by (auto simp: unpack3_def split: list.splits)

lemma copy_loop_count:
  "copy_loop out ls n w = (w', Inr m) \<Longrightarrow>
     m = n + length (written w w' out) \<and>
     length (written w w' out) + length (reported w w') =
       length (filter (\<lambda>l. length (py_split CHR ''|'' l) = 3) ls)"
proof (induction ls arbitrary: n w)
  case Nil
  then show ?case by (simp add: written_def reported_def)
next
  case (Cons l rest)
  from Cons.prems show ?case
  proof (cases rule: copy_loop_Cons_effect)
    case malformed
    with Cons.IH[OF malformed(2)] show ?thesis by simp
  next
    case (skipped a d sha w1)
    from skipped(1) have "length (py_split CHR ''|'' l) = 3"
      by (rule unpack3_Inr_length)
    with Cons.IH[OF skipped(4)] skipped(7,8) show ?thesis by simp
  next
    case (failed a d sha)
    from failed(5) show ?thesis by simp
  next
    case (wrote a d sha w1 c)
    from wrote(1) have "length (py_split CHR ''|'' l) = 3"
      by (rule unpack3_Inr_length)
    with Cons.IH[OF wrote(4)] wrote(8,9) show ?thesis by simp
  qed
qed







lemma copy_loop_append:
  "copy_loop out (xs @ ys) n w =
     (case copy_loop out xs n w of
        (w1, Inl e) \<Rightarrow> (w1, Inl e)
      | (w1, Inr m) \<Rightarrow> copy_loop out ys m w1)"
  by (induction xs arbitrary: n w) (auto split: sum.splits prod.splits)

lemma copy_loop_malformed:
  "length (py_split CHR ''|'' l) \<noteq> 3 \<Longrightarrow> copy_loop out (l # rest) n w = copy_loop out rest n w"
  using unpack3_Inl_iff[of "py_split CHR ''|'' l"] by auto

lemma copy_loop_drop_malformed:
  assumes "length (py_split CHR ''|'' l) \<noteq> 3"
  shows "copy_loop out (xs @ l # ys) n w = copy_loop out (xs @ ys) n w"
proof (cases "copy_loop out xs n w")
  case (Pair w1 r)
  then show ?thesis
    by (cases r) (simp_all add: copy_loop_append copy_loop_malformed[OF assms]
        del: copy_loop.simps(2))
qed



lemma copy_loop_reported_form:
  "copy_loop out ls n w = (w', r) \<Longrightarrow> x \<in> set (reported w w') \<Longrightarrow>
     \<exists>l\<in>set ls. \<exists>a d h. unpack3 (py_split CHR ''|'' l) = Inr (a, d, h) \<and> x = skip_message h"
proof (induction ls arbitrary: n w)
  case Nil
  then show ?case by (simp add: reported_def)
next
  case (Cons l rest)
  from Cons.prems(1) show ?case
  proof (cases rule: copy_loop_Cons_effect)
    case malformed
    from Cons.IH[OF malformed(2) Cons.prems(2)] show ?thesis by auto
  next
    case (skipped a d sha w1)
    show ?thesis
    proof (cases "x = skip_message sha")
      case True
      with skipped(1) show ?thesis by auto
    next
      case False
      with Cons.prems(2) skipped(8) have "x \<in> set (reported w1 w')" by simp
      from Cons.IH[OF skipped(4) this] show ?thesis by auto
    qed
  next
    case (failed a d sha)
    with Cons.prems(2) show ?thesis by simp
  next
    case (wrote a d sha w1 c)
    from Cons.prems(2) wrote(9) have "x \<in> set (reported w1 w')" by simp
    from Cons.IH[OF wrote(4) this] show ?thesis by auto
  qed
qed

lemma copy_loop_committer_date:
  "copy_loop out ls n w = (w', r) \<Longrightarrow> c \<in> set (written w w' out) \<Longrightarrow>
     \<exists>k. committer_date c =
           (case environ w ''GIT_COMMITTER_DATE'' of
              Some x \<Rightarrow> x
            | None \<Rightarrow> wall_clock w k)"
proof (induction ls arbitrary: n w)
  case Nil
  then show ?case by (simp add: written_def)
next
  case (Cons l rest)
  from Cons.prems(1) show ?case
  proof (cases rule: copy_loop_Cons_effect)
    case malformed
    from Cons.IH[OF malformed(2) Cons.prems(2)] show ?thesis .
  next
    case (skipped a d sha w1)
    from Cons.prems(2) skipped(7) have "c \<in> set (written w1 w' out)" by simp
    from Cons.IH[OF skipped(4) this] skipped(5) show ?thesis
      by (auto simp: same_setting_def split: option.splits)
  next
    case (failed a d sha)
    with Cons.prems(2) show ?thesis by simp
  next
    case (wrote a d sha w1 c')
    show ?thesis
    proof (cases "c = c'")
      case True
      then show ?thesis
        by (auto simp: wrote(7) new_commit_fields)
    next
      case False
      with Cons.prems(2) wrote(8) have "c \<in> set (written w1 w' out)" by simp
      from Cons.IH[OF wrote(4) this] wrote(5) show ?thesis
        by (auto simp: same_setting_def split: option.splits)
    qed
  qed
qed

subsection \<open>\<open>recreate_commits\<close> as a whole\<close>

lemma recreate_commits_loop:
  assumes "recreate_commits (Some i) src out w = (w', Inr n)"
  shows "copy_loop out (source_lines w src i) 0 w = (w', Inr n)"
  using assms
  by (auto simp: recreate_commits_def source_lines_def split: option.splits)


lemma recreate_commits_eq_loop:
  assumes "source_lines w src i \<noteq> []"
  shows "recreate_commits (Some i) src out w = copy_loop out (source_lines w src i) 0 w"
  using assms by (auto simp: recreate_commits_def source_lines_def split: option.splits)


subsection \<open>\<open>force_init_output\<close> on an absolute path\<close>

text \<open>
  For an absolute destination that is a directory with a history store, whose marker is
  not a directory, run from a directory outside the store, with a git that does not refuse
  the first commit: the function returns, the working directory is put back, every node
  outside the store other than the marker is as before, the marker is an empty file, and
  the history is one entry, \<open>Initial commit\<close>, that records the files of the work tree.
\<close>

lemma force_init_output_absolute:
  assumes abs: "is_absolute out"
    and dir: "fs w (parts out) = Some Dir"
    and git: "fs w (parts out @ [''.git'']) = Some (Store s)"
    and marker: "fs w (parts out @ [''sync_repo.dat'']) = None \<or>
                 (\<exists>t. fs w (parts out @ [''sync_repo.dat'']) = Some (File t))"
    and here: "fs w (cwd w) = Some Dir" "\<not> prefix (parts out @ [''.git'']) (cwd w)"
    and willing: "\<And>c. \<not> commit_refused w False [] c"
  shows "\<exists>w' c. force_init_output out w = (w', Inr ()) \<and>
           cwd w' = cwd w \<and>
           (\<forall>q. \<not> prefix (parts out @ [''.git'']) q \<longrightarrow> q \<noteq> parts out @ [''sync_repo.dat''] \<longrightarrow>
                fs w' q = fs w q) \<and>
           fs w' (parts out @ [''sync_repo.dat'']) = Some (File []) \<and>
           entries w' out = [c] \<and> message c = ''Initial commit'' \<and>
           (\<forall>rel. tree c rel = worktree_files w' (parts out) rel)"
proof -
  let ?p = "parts out"
  let ?g = "parts out @ [''.git'']"
  let ?m = "parts out @ [''sync_repo.dat'']"
  have gm: "?g \<noteq> ?m" by simp
  have pg: "\<not> prefix ?g ?p" by (simp add: prefix_def)
  have mg: "\<not> prefix ?g ?m" by simp
  have abs_out: "\<And>v. absolute v out = ?p"
    and abs_git: "\<And>v. absolute v (joinpath out ''.git'') = ?g"
    and abs_marker: "\<And>v. absolute v (joinpath out ''sync_repo.dat'') = ?m"
    using abs by (simp_all add: absolute_def joinpath_def)
  have node_p: "\<And>v. fs v ?p = Some Dir \<Longrightarrow> node_at v ?p = Some Dir"
    by (simp add: node_at_def)

  define w1 where "w1 = rmtree w (joinpath out ''.git'')"
  have fs1: "fs w1 = (\<lambda>q. if prefix ?g q then None else fs w q)"
    and cwd1: "cwd w1 = cwd w"
    and ref1: "commit_refused w1 = commit_refused w"
    by (simp_all add: w1_def rmtree_def abs_git Let_def)
  have pre: "(if is_dir w out
              then (let git_dir = joinpath out ''.git''
                    in if is_dir w git_dir then Inr (rmtree w (joinpath out ''.git''))
                       else Inr w)
              else mkdir w out) = Inr w1"
    using dir git by (simp add: is_dir_def abs_out abs_git node_at_def w1_def)

  define w2 where "w2 = w1\<lparr>cwd := ?p\<rparr>"
  have fs2: "fs w2 = fs w1" and cwd2: "cwd w2 = ?p" and ref2: "commit_refused w2 = commit_refused w"
    by (simp_all add: w2_def ref1)
  have expand: "expanduser w1 out = out"
    using abs by (simp add: expanduser_def split: list.splits)
  have cd_in: "chdir w1 (expanduser w1 out) = Inr w2"
    using dir pg by (simp add: expand chdir_def abs_out node_at_def fs1 w2_def Let_def)

  define w3 where "w3 = put_store w2 ?p \<lparr>history = [], index = Map.empty\<rparr>"
  have fs3: "fs w3 = (fs w1)(?g \<mapsto> Store \<lparr>history = [], index = Map.empty\<rparr>)"
    and cwd3: "cwd w3 = ?p" and ref3: "commit_refused w3 = commit_refused w"
    by (simp_all add: w3_def put_store_def fs2 cwd2 ref2)
  have init: "git_init w2 = Inr w3"
    by (simp add: git_init_def cwd2 fs2 fs1 w3_def)

  define w4 where "w4 = w3\<lparr>fs := (fs w3)(?m \<mapsto> File [])\<rparr>"
  have fs4: "fs w4 = (fs w3)(?m \<mapsto> File [])"
    and cwd4: "cwd w4 = ?p" and ref4: "commit_refused w4 = commit_refused w"
    by (simp_all add: w4_def cwd3 ref3)
  have m3: "fs w3 ?m = fs w ?m"
    using mg by (simp add: fs3 fs1)
  have p3: "node_at w3 ?p = Some Dir"
    using dir pg by (simp add: node_at_def fs3 fs1)
  have wr: "write_text w3 (joinpath out ''sync_repo.dat'') [] = Inr w4"
    using marker p3 by (auto simp: write_text_def abs_marker node_at_def m3 w4_def Let_def)

  let ?s5 = "\<lparr>history = [], index = worktree_files w4 ?p\<rparr>"
  define w5 where "w5 = put_store w4 ?p ?s5"
  have fs5: "fs w5 = (fs w4)(?g \<mapsto> Store ?s5)"
    and cwd5: "cwd w5 = ?p" and ref5: "commit_refused w5 = commit_refused w"
    by (simp_all add: w5_def put_store_def cwd4 ref4)
  have st4: "store_at w4 ?p = Some \<lparr>history = [], index = Map.empty\<rparr>"
    by (simp add: store_at_def fs4 fs3)
  have add: "git_add_all w4 = Inr w5"
    by (simp add: git_add_all_def cwd4 st4 w5_def)

  let ?s6 = "?s5\<lparr>index := restage w5 ?p (index ?s5)\<rparr>"
  let ?c = "new_commit w5 ?s6 ''Initial commit'' (environ w5)"
  define w6 where "w6 = put_store w5 ?p (?s6\<lparr>history := [?c]\<rparr>)"
  have fs6: "fs w6 = (fs w5)(?g \<mapsto> Store (?s6\<lparr>history := [?c]\<rparr>))"
    and cwd6: "cwd w6 = ?p"
    by (simp_all add: w6_def put_store_def cwd5)
  have st5: "store_at w5 ?p = Some ?s5"
    by (simp add: store_at_def fs5)
  have com: "git_commit_am w5 ''Initial commit'' = Inr w6"
    using willing by (simp add: git_commit_am_def cwd5 st5 ref5 w6_def Let_def)

  have body: "init_body out w2 = (w6, Inr ())"
    by (simp add: init_body_def init wr add com Let_def)

  define w7 where "w7 = w6\<lparr>cwd := cwd w\<rparr>"
  have fs7: "fs w7 = fs w6" and cwd7: "cwd w7 = cwd w"
    by (simp_all add: w7_def)
  have cm: "cwd w \<noteq> ?m"
    using marker here(1) by auto
  have cg: "cwd w \<noteq> ?g"
    using here(2) by auto
  have "fs w6 (cwd w) = Some Dir"
    using here cm cg by (simp add: fs6 fs5 fs4 fs3 fs1)
  then have cd_out: "chdir w6 \<lparr>is_absolute = True, parts = cwd w1\<rparr> = Inr w7"
    by (simp add: chdir_def absolute_def node_at_def cwd1 w7_def Let_def)

  have run: "force_init_output out w = (w7, Inr ())"
    by (simp add: force_init_output_def pre with_cd_def cd_in body cd_out Let_def)

  have frame: "fs w7 q = fs w q" if "\<not> prefix ?g q" and "q \<noteq> ?m" for q
    using that by (auto simp: fs7 fs6 fs5 fs4 fs3 fs1)
  have mark: "fs w7 ?m = Some (File [])"
    by (simp add: fs7 fs6 fs5 fs4)
  have ent: "entries w7 out = [?c]"
    by (simp add: entries_def abs_out store_at_def fs7 fs6)
  have msg: "message ?c = ''Initial commit''"
    by (simp add: new_commit_def)
  have files: "fs w7 (?p @ rel) = fs w4 (?p @ rel)" if "''.git'' \<notin> set rel" for rel
  proof -
    from that have "?p @ rel \<noteq> ?g" by auto
    then show ?thesis by (simp add: fs7 fs6 fs5)
  qed
  have files5: "fs w5 (?p @ rel) = fs w4 (?p @ rel)" if "''.git'' \<notin> set rel" for rel
  proof -
    from that have "?p @ rel \<noteq> ?g" by auto
    then show ?thesis by (simp add: fs5)
  qed
  have tr: "tree ?c rel = worktree_files w7 ?p rel" for rel
    by (cases "rel = [] \<or> ''.git'' \<in> set rel")
      (auto simp: new_commit_def restage_def worktree_files_def files files5
        split: option.splits node.splits)
  from run cwd7 frame mark ent msg tr show ?thesis by blast
qed

subsection \<open>Evaluation in the concrete world\<close>

lemmas demo_defs = demo_world_def demo_log_def demo_line1_def demo_line2_def demo_hash1_def
  demo_hash2_def demo_now_def demo_src_def demo_out_def demo_initial_def

lemmas model_defs = recreate_commits_def absolute_def commit_exists_def git_log_grep_def
  store_at_def put_store_def grep_match_def format_f_def plain_def is_alnum_def py_strip_def
  is_space_def unpack3_def git_commit_def new_commit_def commit_env_def skip_message_def
  entries_def written_def reported_def source_lines_def Let_def

lemma demo_run:
  "recreate_commits (Some ''a@x.com'') demo_src demo_out demo_world = (demo_after, Inr 2)"
proof -
  have "snd (recreate_commits (Some ''a@x.com'') demo_src demo_out demo_world) = Inr 2"
    by code_simp
  then show ?thesis
    by (simp add: demo_after_def prod_eq_iff)
qed

lemmas demo_defs2 = demo_trailing_def demo_refusing_def demo_line3_def demo_hash3_def

lemma demo_trailing_lines:
  "source_lines demo_trailing demo_src ''a@x.com'' = [demo_line1, demo_line2] @ [] # []"
  by (simp add: demo_defs demo_defs2 source_lines_def absolute_def)

lemma demo_refusing_lines:
  "source_lines demo_refusing demo_src ''a@x.com'' = [demo_line1] @ demo_line2 # [demo_line3]"
  by (simp add: demo_defs demo_defs2 source_lines_def absolute_def)

lemma demo_refusing_first:
  "copy_loop demo_out [demo_line1] 0 demo_refusing = (demo_partial, Inr 1)"
proof -
  have "snd (copy_loop demo_out [demo_line1] 0 demo_refusing) = Inr 1"
    by code_simp
  then show ?thesis
    by (simp add: demo_partial_def prod_eq_iff)
qed

lemma demo_refusing_second:
  "unpack3 (py_split CHR ''|'' demo_line2) =
     Inr (''Mon, 1 Jan 2024 10:00:00 +0100'', ''Mon, 1 Jan 2024 10:00:00 +0100'', demo_hash2)"
  "commit_exists demo_partial demo_out demo_hash2 = 0"
  by code_simp+

lemma demo_refusing_refused:
  "git_commit demo_partial (absolute demo_partial demo_out) demo_hash2
     (commit_env demo_partial ''Mon, 1 Jan 2024 10:00:00 +0100''
        ''Mon, 1 Jan 2024 10:00:00 +0100'') = Inl CalledProcessError"
proof -
  have "isl (git_commit demo_partial (absolute demo_partial demo_out) demo_hash2
     (commit_env demo_partial ''Mon, 1 Jan 2024 10:00:00 +0100''
        ''Mon, 1 Jan 2024 10:00:00 +0100''))"
    by code_simp
  then show ?thesis
    using git_commit_Inl by (auto simp: isl_def)
qed






lemmas fs_defs = force_init_output_def init_body_def with_cd_def is_dir_def is_file_def
  node_at_def mkdir_def rmtree_def write_text_def chdir_def expanduser_def joinpath_def
  git_init_def git_add_all_def git_commit_am_def worktree_files_def restage_def
  absolute_def store_at_def put_store_def new_commit_def entries_def Let_def

text \<open>On absolute paths \<open>force_init_output\<close> does what its docstring says: a new
  directory below an existing parent becomes a target with one entry, and an existing
  target loses its history only, the new first entry recording the marker and the file
  that was there.\<close>

lemma force_init_output_fresh:
  "snd (force_init_output demo_fresh demo_world) = Inr () \<and>
   map message (entries (fst (force_init_output demo_fresh demo_world)) demo_fresh) = [''Initial commit'']"
  by (simp add: fs_defs demo_fresh_def demo_world_def)

lemma force_init_output_existing:
  "snd (force_init_output demo_out demo_world) = Inr () \<and>
   map message (entries (fst (force_init_output demo_out demo_world)) demo_out) = [''Initial commit''] \<and>
   map (\<lambda>c. (tree c [''sync_repo.dat''], tree c [''notes.txt''])) (entries (fst (force_init_output demo_out demo_world)) demo_out) = [(Some [], Some ''keep me'')] \<and>
   fs (fst (force_init_output demo_out demo_world)) [''srv'', ''out'', ''notes.txt''] = Some (File ''keep me'')"
  by (simp add: fs_defs demo_out_def demo_world_def)


section \<open>The claims\<close>




text \<open>
  C2. Claimed: the written entry carries both the author timestamp and the committer
  timestamp of the source record. The environment of the write sets \<open>GIT_AUTHOR_DATE\<close>
  and \<open>GIT_COMITER_DATE\<close>; git reads \<open>GIT_COMMITTER_DATE\<close>. In the concrete world the
  entry for the first record has the record's author date, and the reading of the clock,
  not the record's \<open>Tue, 2 Jan 2024 18:45:10 +0100\<close>, as its committer date.
\<close>

theorem committer_date_is_clock_not_source:
  "unpack3 (py_split CHR ''|'' demo_line1) =
     Inr (''Tue, 2 Jan 2024 11:30:00 +0100'', ''Tue, 2 Jan 2024 18:45:10 +0100'', demo_hash1) \<and>
   map message (written demo_world demo_after demo_out) = [demo_hash2, demo_hash1] \<and>
   map author_date (written demo_world demo_after demo_out) =
     [''Mon, 1 Jan 2024 10:00:00 +0100'', ''Tue, 2 Jan 2024 11:30:00 +0100''] \<and>
   map committer_date (written demo_world demo_after demo_out) =
     [''Wed, 4 Nov 2026 12:00:00 +0000'', ''Wed, 4 Nov 2026 12:00:00 +0000'']"
  by code_simp

text \<open>
  C3. \<open>recreate_commits\<close> returns exactly the number of entries newly written during the
  run. A run that returns \<open>n\<close> has put \<open>n\<close> entries on top of the destination history and
  left the older entries as they were; what it printed on standard error are skip
  diagnostics for hashes of the log; and the entries written and the diagnostics printed
  together are as many as the records read. For a single record: when \<open>commit_exists\<close>
  reports the hash present, the record is skipped, one diagnostic is printed and the count
  stays; when it does not and the write succeeds, one entry is written and the count goes
  up by one.
\<close>

theorem recreate_commits_returns_count:
  assumes "recreate_commits (Some i) in_git_dir output_dir w = (w', Inr n)"
  shows "n = length (written w w' output_dir) \<and>
         entries w' output_dir = written w w' output_dir @ entries w output_dir \<and>
         stderr w' = stderr w @ reported w w' \<and>
         length (written w w' output_dir) + length (reported w w') =
           length (filter (\<lambda>line. length (py_split CHR ''|'' line) = 3)
                     (source_lines w in_git_dir i)) \<and>
         (\<forall>x\<in>set (reported w w').
            \<exists>line\<in>set (source_lines w in_git_dir i). \<exists>a d h.
              unpack3 (py_split CHR ''|'' line) = Inr (a, d, h) \<and> x = skip_message h) \<and>
         (\<forall>v line a d sha k.
            unpack3 (py_split CHR ''|'' line) = Inr (a, d, sha) \<longrightarrow>
            0 < commit_exists v output_dir sha \<longrightarrow>
              copy_loop output_dir [line] k v =
                (v\<lparr>stderr := stderr v @ [skip_message sha]\<rparr>, Inr k)) \<and>
         (\<forall>v v1 line a d sha k.
            unpack3 (py_split CHR ''|'' line) = Inr (a, d, sha) \<longrightarrow>
            commit_exists v output_dir sha = 0 \<longrightarrow>
            git_commit v (absolute v output_dir) sha (commit_env v a d) = Inr v1 \<longrightarrow>
              copy_loop output_dir [line] k v = (v1, Inr (k + 1)) \<and>
              written v v1 output_dir =
                [new_commit v (the (store_at v (absolute v output_dir))) sha (commit_env v a d)])"
proof -
  note loop = recreate_commits_loop[OF assms]
  have count: "n = length (written w w' output_dir)"
    and total: "length (written w w' output_dir) + length (reported w w') =
           length (filter (\<lambda>line. length (py_split CHR ''|'' line) = 3)
                     (source_lines w in_git_dir i))"
    using copy_loop_count[OF loop] by simp_all
  have grows: "entries w' output_dir = written w w' output_dir @ entries w output_dir"
    and err: "stderr w' = stderr w @ reported w w'"
    using copy_loop_grows[OF loop] by simp_all
  have diag: "\<forall>x\<in>set (reported w w').
          \<exists>line\<in>set (source_lines w in_git_dir i). \<exists>a d h.
            unpack3 (py_split CHR ''|'' line) = Inr (a, d, h) \<and> x = skip_message h"
    using copy_loop_reported_form[OF loop] by blast
  have present: "copy_loop output_dir [line] k v =
                (v\<lparr>stderr := stderr v @ [skip_message sha]\<rparr>, Inr k)"
    if "unpack3 (py_split CHR ''|'' line) = Inr (a, d, sha)"
      and "0 < commit_exists v output_dir sha" for v line a d sha k
    using that by simp
  have absent: "copy_loop output_dir [line] k v = (v1, Inr (k + 1)) \<and>
              written v v1 output_dir =
                [new_commit v (the (store_at v (absolute v output_dir))) sha (commit_env v a d)]"
    if "unpack3 (py_split CHR ''|'' line) = Inr (a, d, sha)"
      and "commit_exists v output_dir sha = 0"
      and "git_commit v (absolute v output_dir) sha (commit_env v a d) = Inr v1"
    for v v1 line a d sha k
    using that git_commit_Inr(3)[OF that(3)] by (simp add: written_def)
  from count grows err total diag present absent show ?thesis
    by blast
qed

theorem recreate_commits_returns_count_witness:
  "recreate_commits (Some ''a@x.com'') demo_src demo_out demo_world = (demo_after, Inr 2) \<and>
   2 = length (written demo_world demo_after demo_out) \<and>
   entries demo_after demo_out = written demo_world demo_after demo_out @ entries demo_world demo_out \<and>
   length (written demo_world demo_after demo_out) + length (reported demo_world demo_after) =
     length (filter (\<lambda>line. length (py_split CHR ''|'' line) = 3)
               (source_lines demo_world demo_src ''a@x.com''))"
  using recreate_commits_returns_count[OF demo_run] demo_run by simp



text \<open>
  C5. Claimed: without \<open>--identity\<close>, \<open>get_git_email\<close> never raises, and a configuration
  file without a \<open>user\<close> section falls through to the environment variables. With no
  \<open>~/.gitconfig\<close>, and with one that has no \<open>[user]\<close> section, the function raises
  \<open>NoSectionError\<close> although \<open>GIT_AUTHOR_EMAIL\<close> is set; only a \<open>[user]\<close> section without
  an email falls through.
\<close>

theorem get_git_email_raises_without_user_section:
  "get_git_email demo_no_config None = Inl NoSectionError \<and>
   get_git_email demo_core_config None = Inl NoSectionError \<and>
   get_git_email demo_name_config None = Inr (Some ''a@x.com'')"
  by (simp add: get_git_email_def config_read_def config_get_def empty_ini_def node_at_def
      absolute_def demo_no_config_def demo_core_config_def demo_name_config_def demo_env_def
      demo_world_def)

text \<open>
  C6. Claimed: for a destination that does not exist, \<open>force_init_output\<close> creates the
  directory and any missing parent. For \<open>/srv/new/out\<close>, where \<open>/srv/new\<close> does not
  exist, it raises \<open>FileNotFoundError\<close> and creates nothing.
\<close>

theorem force_init_output_needs_parent:
  "snd (force_init_output demo_deep demo_world) = Inl FileNotFoundError \<and>
   fs (fst (force_init_output demo_deep demo_world)) [''srv'', ''new''] = None \<and>
   fs (fst (force_init_output demo_deep demo_world)) [''srv'', ''new'', ''out''] = None"
  by (simp add: fs_defs demo_deep_def demo_world_def)

text \<open>
  C7. A line of the source log that does not split into exactly three fields is passed
  over in silence: the run is the run over the log without that line, with the same
  entries, the same output, the same result. On its own the line leaves the world and the
  count as they were.
\<close>

theorem malformed_line_is_skipped:
  assumes "source_lines w in_git_dir i = before @ line # after"
    and "length (py_split CHR ''|'' line) \<noteq> 3"
  shows "recreate_commits (Some i) in_git_dir output_dir w =
           copy_loop output_dir (before @ after) 0 w \<and>
         copy_loop output_dir [line] n w = (w, Inr n)"
proof -
  from assms(1) have "source_lines w in_git_dir i \<noteq> []" by simp
  from recreate_commits_eq_loop[OF this] assms(1)
  have "recreate_commits (Some i) in_git_dir output_dir w =
          copy_loop output_dir (before @ line # after) 0 w" by simp
  moreover have "copy_loop output_dir [line] n w = (w, Inr n)"
    by (simp add: copy_loop_malformed[OF assms(2)] del: copy_loop.simps(2))
  ultimately show ?thesis
    by (simp add: copy_loop_drop_malformed[OF assms(2)])
qed

theorem malformed_line_is_skipped_witness:
  "recreate_commits (Some ''a@x.com'') demo_src demo_out demo_trailing =
     copy_loop demo_out ([demo_line1, demo_line2] @ []) 0 demo_trailing \<and>
   copy_loop demo_out [[]] 0 demo_trailing = (demo_trailing, Inr 0)"
proof -
  have "length (py_split CHR ''|'' []) \<noteq> 3" by simp
  from malformed_line_is_skipped[OF demo_trailing_lines this] show ?thesis .
qed

text \<open>
  C8. When the write of a record fails, the run raises \<open>CalledProcessError\<close> there and
  the records after it are not looked at; the world it stops in is the world the records
  before had produced, with every entry they wrote on top of the destination history.
\<close>

theorem failed_write_keeps_earlier_entries:
  assumes "source_lines w in_git_dir i = before @ line # after"
    and "copy_loop output_dir before 0 w = (w1, Inr k)"
    and "unpack3 (py_split CHR ''|'' line) = Inr (a, d, sha)"
    and "commit_exists w1 output_dir sha = 0"
    and "git_commit w1 (absolute w1 output_dir) sha (commit_env w1 a d) = Inl e"
  shows "recreate_commits (Some i) in_git_dir output_dir w = (w1, Inl CalledProcessError) \<and>
         entries w1 output_dir = written w w1 output_dir @ entries w output_dir \<and>
         length (written w w1 output_dir) = k"
proof -
  from assms(1) have "source_lines w in_git_dir i \<noteq> []" by simp
  from recreate_commits_eq_loop[OF this] assms(1)
  have "recreate_commits (Some i) in_git_dir output_dir w =
          copy_loop output_dir (before @ line # after) 0 w" by simp
  also have "\<dots> = copy_loop output_dir (line # after) k w1"
    by (simp add: copy_loop_append assms(2) del: copy_loop.simps(2))
  also have "\<dots> = (w1, Inl CalledProcessError)"
    using assms(3,4,5) git_commit_Inl[OF assms(5)] by simp
  finally have run: "recreate_commits (Some i) in_git_dir output_dir w =
                       (w1, Inl CalledProcessError)" .
  from copy_loop_grows[OF assms(2)] copy_loop_count[OF assms(2)] run
  show ?thesis by simp
qed

theorem failed_write_keeps_earlier_entries_witness:
  "recreate_commits (Some ''a@x.com'') demo_src demo_out demo_refusing =
     (demo_partial, Inl CalledProcessError) \<and>
   entries demo_partial demo_out =
     written demo_refusing demo_partial demo_out @ entries demo_refusing demo_out \<and>
   length (written demo_refusing demo_partial demo_out) = 1"
  using failed_write_keeps_earlier_entries[OF demo_refusing_lines demo_refusing_first
      demo_refusing_second demo_refusing_refused]
  by simp




text \<open>
  C10. Claimed: on an existing directory with a history store, \<open>force_init_output\<close>
  deletes the store only, and the marker and the surviving files are in the fresh initial
  commit. For the relative destination \<open>out\<close> the other files do stay, but the marker is
  looked for below the new working directory, at \<open>/srv/out/out/sync_repo.dat\<close>: the
  function raises \<open>FileNotFoundError\<close>, and the destination is left with an empty history.
\<close>

theorem force_init_output_relative_path_fails:
  "snd (force_init_output demo_out_relative demo_world) = Inl FileNotFoundError \<and>
   entries (fst (force_init_output demo_out_relative demo_world)) demo_out = [] \<and>
   fs (fst (force_init_output demo_out_relative demo_world)) [''srv'', ''out'', ''notes.txt''] =
     Some (File ''keep me'') \<and>
   cwd (fst (force_init_output demo_out_relative demo_world)) = [''srv'']"
  by (simp add: fs_defs demo_out_relative_def demo_out_def demo_world_def)

end
